theory Spec2Isabelle
  imports Main "HOL-Library.Word"
begin

section \<open>Python values\<close>

text \<open>
  A Python \<open>str\<close> is a sequence of Unicode code points, so a string is a list of
  natural numbers here; \<open>u\<close> embeds an ASCII literal.  File contents are bytes.
\<close>

type_synonym pychar = nat
type_synonym pystr = "pychar list"
type_synonym bytes = "8 word list"

abbreviation u :: "string \<Rightarrow> pystr" where
  "u s \<equiv> map of_char s"

text \<open>\<open>not text\<close>: both \<open>None\<close> and the empty string are falsy.\<close>

fun falsy :: "pystr option \<Rightarrow> bool" where
  "falsy None = True"
| "falsy (Some s) = (s = [])"

text \<open>
  \<open>list(set(xs))\<close>: the elements of \<open>xs\<close>, each once.  Python leaves the iteration
  order of a set unspecified; the model keeps one fixed order, and every statement below
  speaks about the elements and their multiplicity only.
\<close>

definition list_of_set :: "'a list \<Rightarrow> 'a list" where
  "list_of_set xs = remdups xs"

section \<open>The pattern detector\<close>

text \<open>
  The pattern \<open>[STFG]\d{7}[A-Z]\<close> is a sequence of single-character atoms.  On a
  \<open>str\<close> pattern \<open>\d\<close> is the class of Unicode decimal digits; that table
  belongs to the interpreter, so it is the parameter \<open>nd\<close> of the matcher.
\<close>

datatype atom = In_Set "pychar list" | Digit | In_Range pychar pychar

fun atom_matches :: "(pychar \<Rightarrow> bool) \<Rightarrow> atom \<Rightarrow> pychar \<Rightarrow> bool" where
  "atom_matches nd (In_Set cs) c = (c \<in> set cs)"
| "atom_matches nd Digit c = nd c"
| "atom_matches nd (In_Range lo hi) c = (lo \<le> c \<and> c \<le> hi)"

definition NRIC_REGEX_PATTERN :: "atom list" where
  "NRIC_REGEX_PATTERN =
     In_Set (u ''STFG'') # replicate 7 Digit @ [In_Range (of_char CHR ''A'') (of_char CHR ''Z'')]"

text \<open>The match of a pattern at the start of a string, if there is one.\<close>

fun match_here :: "(pychar \<Rightarrow> bool) \<Rightarrow> atom list \<Rightarrow> pystr \<Rightarrow> pystr option" where
  "match_here nd [] s = Some []"
| "match_here nd (a # as) [] = None"
| "match_here nd (a # as) (c # cs) =
     (if atom_matches nd a c then map_option ((#) c) (match_here nd as cs) else None)"

text \<open>
  \<open>re.findall\<close> for a pattern without groups: scan from the left, collect the match
  at the current position and continue behind it, or move on by one character.
\<close>

function findall :: "(pychar \<Rightarrow> bool) \<Rightarrow> atom list \<Rightarrow> pystr \<Rightarrow> pystr list" where
  "findall nd pat [] = (case match_here nd pat [] of Some m \<Rightarrow> [m] | None \<Rightarrow> [])"
| "findall nd pat (c # cs) =
     (case match_here nd pat (c # cs) of
        Some m \<Rightarrow> m # findall nd pat (drop (length m - 1) cs)
      | None \<Rightarrow> findall nd pat cs)"
  by pat_completeness auto
termination
  by (relation "measure (\<lambda>(nd, pat, s). length s)") auto

definition find_nric_matches :: "(pychar \<Rightarrow> bool) \<Rightarrow> pystr option \<Rightarrow> pystr list" where
  "find_nric_matches nd text =
     (if falsy text then []
      else let nric_matches = findall nd NRIC_REGEX_PATTERN (the text)
           in list_of_set nric_matches)"

text \<open>
  The shape in the words of the specification: one of the four letters S, T, F, G, then
  exactly seven digits, then one upper-case letter.
\<close>

definition nric_shape :: "(pychar \<Rightarrow> bool) \<Rightarrow> pystr \<Rightarrow> bool" where
  "nric_shape nd m \<longleftrightarrow>
     length m = 9 \<and> hd m \<in> set (u ''STFG'') \<and> list_all nd (take 7 (tl m)) \<and>
     of_char CHR ''A'' \<le> last m \<and> last m \<le> of_char CHR ''Z''"

definition ascii_digit :: "pychar \<Rightarrow> bool" where
  "ascii_digit c \<longleftrightarrow> of_char CHR ''0'' \<le> c \<and> c \<le> of_char CHR ''9''"

section \<open>Exceptions and the file system\<close>

text \<open>
  Every exception that the code can meet is a value; a call that may raise returns
  \<open>exn + 'a\<close>, with \<open>Inl\<close> for the exception.  Only subclasses of
  \<open>Exception\<close> are modelled, which is what \<open>except Exception\<close> catches.
  Logging with \<open>print\<close> is left out.
\<close>

datatype exn =
  FileNotFoundError | IsADirectoryError | PermissionError | SameFileError
  | ValueError | PDFError | ModelError

type_synonym path = pystr

text \<open>
  The file system: the regular files with their contents, the directories, and the
  paths at which this process may neither create, overwrite nor delete a file.  A file
  operation that fails leaves the file system as it was.
\<close>

record os_state =
  files :: "path \<rightharpoonup> bytes"
  dirs :: "path set"
  denied :: "path set"

definition path_exists :: "os_state \<Rightarrow> path \<Rightarrow> bool" where
  "path_exists w p \<longleftrightarrow> files w p \<noteq> None \<or> p \<in> dirs w"

definition read_file :: "os_state \<Rightarrow> path \<Rightarrow> exn + bytes" where
  "read_file w p =
     (if p \<in> dirs w then Inl IsADirectoryError
      else case files w p of None \<Rightarrow> Inl FileNotFoundError | Some b \<Rightarrow> Inr b)"

definition write_file :: "os_state \<Rightarrow> path \<Rightarrow> bytes \<Rightarrow> exn + os_state" where
  "write_file w p b =
     (if p \<in> dirs w then Inl IsADirectoryError
      else if p \<in> denied w then Inl PermissionError
      else Inr (w\<lparr>files := (files w)(p \<mapsto> b)\<rparr>))"

text \<open>\<open>shutil.copyfile(src, dst)\<close>\<close>

definition copyfile :: "os_state \<Rightarrow> path \<Rightarrow> path \<Rightarrow> exn + os_state" where
  "copyfile w src dst =
     (if src = dst then Inl SameFileError
      else case read_file w src of Inl e \<Rightarrow> Inl e | Inr b \<Rightarrow> write_file w dst b)"

text \<open>\<open>os.remove(p)\<close>\<close>

definition remove_file :: "os_state \<Rightarrow> path \<Rightarrow> exn + os_state" where
  "remove_file w p =
     (if p \<in> dirs w then Inl IsADirectoryError
      else if files w p = None then Inl FileNotFoundError
      else if p \<in> denied w then Inl PermissionError
      else Inr (w\<lparr>files := (files w)(p := None)\<rparr>))"

text \<open>\<open>os.path.join\<close> of two components, on a POSIX system.\<close>

definition path_join :: "path \<Rightarrow> pystr \<Rightarrow> path" where
  "path_join a b =
     (if b \<noteq> [] \<and> hd b = of_char CHR ''/'' then b
      else if a = [] \<or> last a = of_char CHR ''/'' then a @ b
      else a @ u ''/'' @ b)"

section \<open>The text extractor\<close>

text \<open>
  The PDF reader is a library: \<open>pdfplumber\<close> below is what it makes of the bytes of a
  file, an exception or the pages, and a page is the outcome of
  \<open>page.extract_text(x_tolerance=2)\<close>: an exception, \<open>None\<close> or a string.
\<close>

type_synonym page = "exn + pystr option"
type_synonym pdfplumber = "bytes \<Rightarrow> exn + page list"

definition pdfplumber_open :: "pdfplumber \<Rightarrow> os_state \<Rightarrow> path \<Rightarrow> exn + page list" where
  "pdfplumber_open pdfplumber w p =
     (case read_file w p of Inl e \<Rightarrow> Inl e | Inr b \<Rightarrow> pdfplumber b)"

text \<open>The loop over the pages, with \<open>full_text\<close> as its accumulator.\<close>

fun extract_pages :: "page list \<Rightarrow> pystr \<Rightarrow> exn + pystr" where
  "extract_pages [] full_text = Inr full_text"
| "extract_pages (page # pages) full_text =
     (case page of
        Inl e \<Rightarrow> Inl e
      | Inr text \<Rightarrow>
          if \<not> falsy text then extract_pages pages (full_text @ the text @ u [CHR 0x0A])
          else extract_pages pages full_text)"

text \<open>
  The result is \<open>Inl\<close> if the call raises to its caller and \<open>Inr\<close> of the returned
  value (\<open>None\<close> or a string) otherwise.
\<close>

definition extract_text_from_pdf :: "pdfplumber \<Rightarrow> os_state \<Rightarrow> path \<Rightarrow> exn + pystr option" where
  "extract_text_from_pdf pdfplumber w pdf_file_path =
     (if \<not> path_exists w pdf_file_path then Inr None
      else
        (case (case pdfplumber_open pdfplumber w pdf_file_path of
                 Inl e \<Rightarrow> Inl e
               | Inr pages \<Rightarrow> extract_pages pages [])
         of Inl e \<Rightarrow> Inr None
          | Inr full_text \<Rightarrow> Inr (Some full_text)))"

text \<open>What the specification says of a successful extraction: each page's text, if it has
  any, followed by a newline, in page order.\<close>

fun page_contribution :: "page \<Rightarrow> pystr" where
  "page_contribution (Inr (Some t)) = (if t = [] then [] else t @ u [CHR 0x0A])"
| "page_contribution _ = []"

section \<open>The entity detector\<close>

text \<open>
  The language model is a library as well: \<open>nlp\<close> maps a text to an exception or to
  the entities it found, each with its text and its label.
\<close>

record entity =
  ent_text :: pystr
  ent_label :: pystr

type_synonym nlp = "pystr \<Rightarrow> exn + entity list"

definition PII_ENTITY_TYPES :: "pystr list" where
  "PII_ENTITY_TYPES = [u ''PERSON'', u ''GPE'', u ''LOC'', u ''ORG'', u ''DATE'']"

fun collect_pii :: "entity list \<Rightarrow> pystr list \<Rightarrow> pystr list" where
  "collect_pii [] pii_list = pii_list"
| "collect_pii (entity # ents) pii_list =
     (if ent_label entity \<in> set PII_ENTITY_TYPES
      then collect_pii ents (pii_list @ [ent_text entity])
      else collect_pii ents pii_list)"

definition find_pii_entities :: "nlp \<Rightarrow> pystr option \<Rightarrow> exn + pystr list" where
  "find_pii_entities nlp text =
     (if falsy text then Inr []
      else case nlp (the text) of
             Inl e \<Rightarrow> Inl e
           | Inr ents \<Rightarrow> Inr (list_of_set (collect_pii ents [])))"

section \<open>The aggregator\<close>

text \<open>\<open>list(set(spacy_pii) | set(nric_pii))\<close>, as both callers write it.\<close>

definition combine :: "pystr list \<Rightarrow> pystr list \<Rightarrow> pystr list" where
  "combine spacy_pii nric_pii = list_of_set (spacy_pii @ nric_pii)"

section \<open>The redactor\<close>

text \<open>
  The PDF editor is a library over its own documents \<open>'d\<close> and rectangles \<open>'r\<close>:
  opening the bytes of a file, the number of pages, the search on a page, adding a
  redaction annotation, applying the redactions of a page, and serialising with
  \<open>garbage=4, deflate=True\<close>.  Pages are addressed by their index.
\<close>

record ('d, 'r) fitz =
  fz_open :: "bytes \<Rightarrow> exn + 'd"
  fz_page_count :: "'d \<Rightarrow> nat"
  fz_search_for :: "'d \<Rightarrow> nat \<Rightarrow> pystr \<Rightarrow> exn + 'r list"
  fz_add_redact_annot :: "'d \<Rightarrow> nat \<Rightarrow> 'r \<Rightarrow> exn + 'd"
  fz_apply_redactions :: "'d \<Rightarrow> nat \<Rightarrow> exn + 'd"
  fz_save :: "'d \<Rightarrow> exn + bytes"

fun add_annots :: "('d, 'r) fitz \<Rightarrow> nat \<Rightarrow> 'r list \<Rightarrow> 'd \<Rightarrow> exn + 'd" where
  "add_annots lib page_num [] doc = Inr doc"
| "add_annots lib page_num (inst # insts) doc =
     (case fz_add_redact_annot lib doc page_num inst of
        Inl e \<Rightarrow> Inl e
      | Inr doc' \<Rightarrow> add_annots lib page_num insts doc')"

text \<open>The loop over the targets on one page; the state is the document and
  \<open>redactions_made\<close>.\<close>

fun redact_texts :: "('d, 'r) fitz \<Rightarrow> nat \<Rightarrow> pystr list \<Rightarrow> 'd \<times> nat \<Rightarrow> exn + 'd \<times> nat" where
  "redact_texts lib page_num [] (doc, redactions_made) = Inr (doc, redactions_made)"
| "redact_texts lib page_num (text # texts) (doc, redactions_made) =
     (if text = [] then redact_texts lib page_num texts (doc, redactions_made)
      else
        (case fz_search_for lib doc page_num text of
           Inl e \<Rightarrow> Inl e
         | Inr search_instances \<Rightarrow>
             if search_instances \<noteq> [] then
               (case add_annots lib page_num search_instances doc of
                  Inl e \<Rightarrow> Inl e
                | Inr doc' \<Rightarrow>
                    redact_texts lib page_num texts
                      (doc', redactions_made + length search_instances))
             else redact_texts lib page_num texts (doc, redactions_made)))"

text \<open>The loop over the pages.\<close>

fun redact_pages :: "('d, 'r) fitz \<Rightarrow> pystr list \<Rightarrow> nat list \<Rightarrow> 'd \<times> nat \<Rightarrow> exn + 'd \<times> nat" where
  "redact_pages lib texts [] st = Inr st"
| "redact_pages lib texts (page_num # page_nums) st =
     (case redact_texts lib page_num texts st of
        Inl e \<Rightarrow> Inl e
      | Inr (doc, redactions_made) \<Rightarrow>
          (case fz_apply_redactions lib doc page_num of
             Inl e \<Rightarrow> Inl e
           | Inr doc' \<Rightarrow> redact_pages lib texts page_nums (doc', redactions_made)))"

text \<open>
  The file that a save writes: the PDF library first removes what is at the path, an
  empty directory included, and then creates the file.  A path at which that is refused,
  such as a directory with entries, is a denied path.
\<close>

definition save_output :: "os_state \<Rightarrow> path \<Rightarrow> bytes \<Rightarrow> exn + os_state" where
  "save_output w p b =
     (if p \<in> denied w then Inl PermissionError
      else Inr (w\<lparr>files := (files w)(p \<mapsto> b), dirs := dirs w - {p}\<rparr>))"

text \<open>
  \<open>doc.save(output_pdf_path, garbage=4, deflate=True)\<close> for a document that was opened
  from the path \<open>name\<close>: the library raises \<open>ValueError\<close> for a save onto the file it
  opened (``save to original must be incremental'') and for a document without pages.
\<close>

definition doc_save ::
  "('d, 'r) fitz \<Rightarrow> os_state \<Rightarrow> 'd \<Rightarrow> path \<Rightarrow> path \<Rightarrow> exn + os_state" where
  "doc_save lib w doc name output_pdf_path =
     (if output_pdf_path = name then Inl ValueError
      else if fz_page_count lib doc = 0 then Inl ValueError
      else case fz_save lib doc of
             Inl e \<Rightarrow> Inl e
           | Inr b \<Rightarrow> save_output w output_pdf_path b)"

text \<open>The body of the \<open>try\<close> of the non-empty branch.\<close>

definition redact_document ::
  "('d, 'r) fitz \<Rightarrow> os_state \<Rightarrow> path \<Rightarrow> path \<Rightarrow> pystr list \<Rightarrow> exn + os_state" where
  "redact_document lib w input_pdf_path output_pdf_path text_list_to_redact =
     (case read_file w input_pdf_path of
        Inl e \<Rightarrow> Inl e
      | Inr b \<Rightarrow>
          (case fz_open lib b of
             Inl e \<Rightarrow> Inl e
           | Inr doc \<Rightarrow>
               (case redact_pages lib text_list_to_redact [0 ..< fz_page_count lib doc] (doc, 0) of
                  Inl e \<Rightarrow> Inl e
                | Inr (doc', redactions_made) \<Rightarrow>
                    if redactions_made > 0
                    then doc_save lib w doc' input_pdf_path output_pdf_path
                    else doc_save lib w doc' input_pdf_path output_pdf_path)))"

text \<open>The redactor returns its flag and the file system it leaves behind.\<close>

definition redact_sensitive_text ::
  "('d, 'r) fitz \<Rightarrow> os_state \<Rightarrow> path \<Rightarrow> path \<Rightarrow> pystr list \<Rightarrow> bool \<times> os_state" where
  "redact_sensitive_text lib w input_pdf_path output_pdf_path text_list_to_redact =
     (if \<not> path_exists w input_pdf_path then (False, w)
      else if text_list_to_redact = [] then
        (case copyfile w input_pdf_path output_pdf_path of
           Inl e \<Rightarrow> (False, w)
         | Inr w' \<Rightarrow> (True, w'))
      else
        (case redact_document lib w input_pdf_path output_pdf_path text_list_to_redact of
           Inl e \<Rightarrow> (False, w)
         | Inr w' \<Rightarrow> (True, w')))"

section \<open>The request handler\<close>

record ('d, 'r) libraries =
  lib_pdfplumber :: pdfplumber
  lib_nlp :: nlp
  lib_decimal :: "pychar \<Rightarrow> bool"
  lib_fitz :: "('d, 'r) fitz"

datatype response = FileResponse path pystr | ErrorBody string

text \<open>Steps 3 and 4 of the endpoint: redact, then answer.\<close>

definition redact_and_respond ::
  "('d, 'r) libraries \<Rightarrow> os_state \<Rightarrow> path \<Rightarrow> path \<Rightarrow> pystr \<Rightarrow> pystr list \<Rightarrow> response \<times> os_state" where
  "redact_and_respond L w temp_input_path temp_output_path filename all_pii_to_redact =
     (case redact_sensitive_text (lib_fitz L) w temp_input_path temp_output_path all_pii_to_redact of
        (redaction_successful, w') \<Rightarrow>
          if redaction_successful then
            if path_exists w' temp_output_path
            then (FileResponse temp_output_path (u ''redacted_'' @ filename), w')
            else (ErrorBody ''Processing completed, but no redacted output file was generated (perhaps no PII found?).'', w')
          else (ErrorBody ''Failed to process and redact the PDF file.'', w'))"

text \<open>The target list that step 2 of the endpoint computes: \<open>Inl\<close> where a detector
  raises, which the handler's catch-all turns into an error body.\<close>

definition pii_targets :: "('d, 'r) libraries \<Rightarrow> pystr option \<Rightarrow> exn + pystr list" where
  "pii_targets L extracted_text =
     (if falsy extracted_text then Inr []
      else case find_pii_entities (lib_nlp L) extracted_text of
             Inl e \<Rightarrow> Inl e
           | Inr spacy_pii \<Rightarrow>
               let nric_pii = find_nric_matches (lib_decimal L) extracted_text
               in Inr (combine spacy_pii nric_pii))"

text \<open>Steps 2 to 4, the part of the outer \<open>try\<close> after the upload is saved.\<close>

definition process_saved ::
  "('d, 'r) libraries \<Rightarrow> os_state \<Rightarrow> path \<Rightarrow> path \<Rightarrow> pystr \<Rightarrow> response \<times> os_state" where
  "process_saved L w temp_input_path temp_output_path filename =
     (case extract_text_from_pdf (lib_pdfplumber L) w temp_input_path of
        Inl e \<Rightarrow> (ErrorBody ''An internal server error occurred.'', w)
      | Inr extracted_text \<Rightarrow>
          if falsy extracted_text \<and> \<not> path_exists w temp_input_path
          then (ErrorBody ''Temporary file vanished before processing.'', w)
          else
            (case pii_targets L extracted_text of
               Inl e \<Rightarrow> (ErrorBody ''An internal server error occurred.'', w)
             | Inr all_pii_to_redact \<Rightarrow>
                 redact_and_respond L w temp_input_path temp_output_path filename all_pii_to_redact))"

text \<open>The \<open>finally\<close> of the endpoint: the temporary input is deleted if it is there, and
  a failure to delete it is only logged.\<close>

definition cleanup :: "os_state \<Rightarrow> path \<Rightarrow> os_state" where
  "cleanup w temp_input_path =
     (if path_exists w temp_input_path then
        (case remove_file w temp_input_path of Inl e \<Rightarrow> w | Inr w' \<Rightarrow> w')
      else w)"

text \<open>
  The endpoint, for an upload with the given file name and content; \<open>TEMP_DIR\<close> and the
  identifier that \<open>uuid4\<close> draws are parameters.
\<close>

definition anonymize_pdf_endpoint ::
  "('d, 'r) libraries \<Rightarrow> os_state \<Rightarrow> path \<Rightarrow> pystr \<Rightarrow> pystr \<Rightarrow> bytes \<Rightarrow> response \<times> os_state" where
  "anonymize_pdf_endpoint L w TEMP_DIR unique_id filename upload =
     (let temp_input_path = path_join TEMP_DIR (unique_id @ u ''_input.pdf'');
          temp_output_path = path_join TEMP_DIR (unique_id @ u ''_output_redacted.pdf'')
      in case (case write_file w temp_input_path upload of
                 Inl e \<Rightarrow> (ErrorBody ''Could not save uploaded file'', w)
               | Inr w1 \<Rightarrow> process_saved L w1 temp_input_path temp_output_path filename)
         of (resp, w2) \<Rightarrow> (resp, cleanup w2 temp_input_path))"

section \<open>Example data\<close>

text \<open>
  Concrete file systems and toy libraries, on which the statements below are evaluated.
  The toy editor reads every non-empty file as a one-page document, finds a target on a
  page when it is the whole text of the page, and serialises a document as the lengths
  of its pages.
\<close>

definition sample_pdf :: path where "sample_pdf = u ''in.pdf''"

definition sample_out :: path where "sample_out = u ''out.pdf''"

definition sample_bytes :: bytes where "sample_bytes = [0x25, 0x50, 0x44, 0x46]"

definition empty_os :: os_state where
  "empty_os = \<lparr>files = Map.empty, dirs = {}, denied = {}\<rparr>"

definition sample_os :: os_state where
  "sample_os = \<lparr>files = [sample_pdf \<mapsto> sample_bytes], dirs = {}, denied = {}\<rparr>"

definition copied_os :: os_state where
  "copied_os =
     \<lparr>files = [sample_pdf \<mapsto> sample_bytes, sample_out \<mapsto> sample_bytes], dirs = {}, denied = {}\<rparr>"



definition temp_in :: path where "temp_in = u ''temp/id_input.pdf''"

definition temp_out :: path where "temp_out = u ''temp/id_output_redacted.pdf''"

definition uploaded_os :: os_state where
  "uploaded_os = \<lparr>files = [temp_in \<mapsto> sample_bytes], dirs = {}, denied = {}\<rparr>"

definition no_pages :: pdfplumber where "no_pages b = Inr []"

definition broken_pdf :: pdfplumber where "broken_pdf b = Inl PDFError"

definition failing_page :: pdfplumber where
  "failing_page b = Inr [Inr (Some (u ''John Smith'')), Inl PDFError]"

definition three_pages :: pdfplumber where
  "three_pages b = Inr [Inr (Some (u ''John Smith'')), Inr None, Inr (Some (u ''ID: S1234567A.''))]"

definition sample_entities :: "entity list" where
  "sample_entities =
     [\<lparr>ent_text = u ''John Smith'', ent_label = u ''PERSON''\<rparr>,
      \<lparr>ent_text = u ''Singapore'', ent_label = u ''GPE''\<rparr>,
      \<lparr>ent_text = u ''42'', ent_label = u ''CARDINAL''\<rparr>,
      \<lparr>ent_text = u ''Singapore'', ent_label = u ''GPE''\<rparr>]"

definition sample_nlp :: nlp where
  "sample_nlp t = Inr sample_entities"

definition toy_fitz :: "(pystr list, nat) fitz" where
  "toy_fitz =
     \<lparr>fz_open = (\<lambda>b. if b = [] then Inl PDFError else Inr [u ''S1234567A'']),
      fz_page_count = length,
      fz_search_for =
        (\<lambda>d n t. if n < length d then Inr (if d ! n = t then [0] else []) else Inl PDFError),
      fz_add_redact_annot = (\<lambda>d n r. Inr (d[n := []])),
      fz_apply_redactions = (\<lambda>d n. Inr d),
      fz_save = (\<lambda>d. Inr (map (of_nat \<circ> length) d))\<rparr>"


definition toy_libraries :: "(pystr list, nat) libraries" where
  "toy_libraries =
     \<lparr>lib_pdfplumber = no_pages, lib_nlp = sample_nlp, lib_decimal = ascii_digit,
      lib_fitz = toy_fitz\<rparr>"

section \<open>Helper lemmas\<close>

lemma sample_paths:
  "sample_pdf \<noteq> sample_out" "path_join (u ''temp'') (u ''id'' @ u ''_input.pdf'') = temp_in"
  "path_join (u ''temp'') (u ''id'' @ u ''_output_redacted.pdf'') = temp_out"
  by (simp_all add: sample_pdf_def sample_out_def path_join_def temp_in_def temp_out_def)

lemma match_here_atoms:
  "match_here nd pat s = Some m \<Longrightarrow> list_all2 (atom_matches nd) pat m"
  by (induction nd pat s arbitrary: m rule: match_here.induct) (auto split: if_splits)

lemma findall_is_match:
  "m \<in> set (findall nd pat s) \<Longrightarrow> \<exists>t. match_here nd pat t = Some m"
  by (induction nd pat s rule: findall.induct) (auto split: option.splits)

lemma nric_pattern_shape:
  "list_all2 (atom_matches nd) NRIC_REGEX_PATTERN m \<Longrightarrow> nric_shape nd m"
  by (auto simp: NRIC_REGEX_PATTERN_def nric_shape_def eval_nat_numeral list_all2_Cons1)

lemma extract_pages_raise:
  "\<exists>pg \<in> set pages. isl pg \<Longrightarrow> \<exists>e. extract_pages pages acc = Inl e"
  by (induction pages acc rule: extract_pages.induct) (auto split: sum.splits)

lemma extract_pages_concat:
  "\<forall>pg \<in> set pages. \<not> isl pg \<Longrightarrow>
   extract_pages pages acc = Inr (acc @ concat (map page_contribution pages))"
proof (induction pages acc rule: extract_pages.induct)
  case (1 full_text)
  then show ?case by simp
next
  case (2 page pages full_text)
  then show ?case
    by (cases page; cases "projr page") (auto)
qed

lemma collect_pii_set:
  "set (collect_pii ents acc) =
     set acc \<union> ent_text ` {e \<in> set ents. ent_label e \<in> set PII_ENTITY_TYPES}"
  by (induction ents acc rule: collect_pii.induct) auto

lemma count_list_remdups:
  "count_list (remdups xs) x = (if x \<in> set xs then 1 else 0)"
  by (induction xs) auto

lemma write_file_files:
  "write_file w p b = Inr w' \<Longrightarrow> files w' = (files w)(p \<mapsto> b) \<and> dirs w' = dirs w \<and> denied w' = denied w"
  by (auto simp: write_file_def split: if_splits)

lemma write_file_ok:
  "write_file w p b = Inr w' \<Longrightarrow> p \<notin> dirs w \<and> p \<notin> denied w \<and> w' = w\<lparr>files := (files w)(p \<mapsto> b)\<rparr>"
  by (auto simp: write_file_def split: if_splits)

lemma copyfile_files:
  "copyfile w src dst = Inr w' \<Longrightarrow>
     files w src \<noteq> None \<and> files w' = (files w)(dst := files w src) \<and> src \<noteq> dst"
  by (auto simp: copyfile_def read_file_def dest!: write_file_files split: if_splits sum.splits option.splits)





lemma path_join_distinct:
  "x \<noteq> y \<Longrightarrow> x \<noteq> [] \<Longrightarrow> y \<noteq> [] \<Longrightarrow> hd x = hd y \<Longrightarrow>
   path_join d (i @ x) \<noteq> path_join d (i @ y)"
  by (cases i) (auto simp: path_join_def)

lemma temp_paths_distinct:
  "path_join d (i @ u ''_input.pdf'') \<noteq> path_join d (i @ u ''_output_redacted.pdf'')"
  by (rule path_join_distinct) simp_all

lemma endpoint_no_text:
  assumes tin: "tin = path_join TEMP_DIR (unique_id @ u ''_input.pdf'')"
    and tout: "tout = path_join TEMP_DIR (unique_id @ u ''_output_redacted.pdf'')"
    and saved: "write_file w tin upload = Inr w1"
    and nt: "extract_text_from_pdf (lib_pdfplumber L) w1 tin = Inr t" "falsy t"
    and out: "tout \<notin> dirs w" "tout \<notin> denied w"
  shows "\<exists>w2. anonymize_pdf_endpoint L w TEMP_DIR unique_id filename upload =
            (FileResponse tout (u ''redacted_'' @ filename), w2) \<and>
          files w2 tout = Some upload"
proof -
  have ne: "tin \<noteq> tout"
    unfolding tin tout by (rule temp_paths_distinct)
  from write_file_ok [OF saved]
  have w1: "tin \<notin> dirs w" "tin \<notin> denied w" "w1 = w\<lparr>files := (files w)(tin \<mapsto> upload)\<rparr>"
    by simp_all
  have ex: "path_exists w1 tin"
    by (simp add: w1 path_exists_def)
  define w' where "w' = w1\<lparr>files := (files w1)(tout \<mapsto> upload)\<rparr>"
  have cp: "copyfile w1 tin tout = Inr w'"
    using ne w1 out by (simp add: copyfile_def read_file_def write_file_def w'_def)
  have red: "redact_sensitive_text (lib_fitz L) w1 tin tout [] = (True, w')"
    using ex cp by (simp add: redact_sensitive_text_def)
  have resp: "redact_and_respond L w1 tin tout filename [] =
      (FileResponse tout (u ''redacted_'' @ filename), w')"
    using red by (simp add: redact_and_respond_def path_exists_def w'_def)
  have proc: "process_saved L w1 tin tout filename =
      (FileResponse tout (u ''redacted_'' @ filename), w')"
    using nt ex resp by (simp add: process_saved_def pii_targets_def)
  have "files (cleanup w' tin) tout = Some upload"
    using ne by (auto simp: cleanup_def remove_file_def w'_def split: sum.splits)
  then show ?thesis
    unfolding anonymize_pdf_endpoint_def Let_def tin [symmetric] tout [symmetric]
    using saved proc by simp
qed

section \<open>The claims\<close>

text \<open>
  Claim C1, as the code has it.  With an empty target list the redactor copies the input
  to the output path and returns success whenever the input path exists and the copy does
  not raise: the output then holds the bytes of the input and no other file changes.
  In the request handler a document without extractable text (the extractor returns
  \<open>None\<close> or the empty string) has the empty target list, and when the output path can
  be written the answer is the output file, holding the uploaded bytes.
\<close>
theorem redact_empty_targets_copy:
  fixes TEMP_DIR unique_id :: pystr
  defines "tin \<equiv> path_join TEMP_DIR (unique_id @ u ''_input.pdf'')"
    and "tout \<equiv> path_join TEMP_DIR (unique_id @ u ''_output_redacted.pdf'')"
  shows
  "(path_exists w inp \<and> copyfile w inp out = Inr w' \<longrightarrow>
      redact_sensitive_text lib w inp out [] = (True, w') \<and>
      files w inp \<noteq> None \<and> files w' out = files w inp \<and>
      (\<forall>p. p \<noteq> out \<longrightarrow> files w' p = files w p)) \<and>
   (falsy extracted_text \<longrightarrow> pii_targets L extracted_text = Inr []) \<and>
   (write_file w0 tin upload = Inr w1 \<and>
    extract_text_from_pdf (lib_pdfplumber L) w1 tin = Inr t \<and> falsy t \<and>
    tout \<notin> dirs w0 \<and> tout \<notin> denied w0 \<longrightarrow>
      (\<exists>w2. anonymize_pdf_endpoint L w0 TEMP_DIR unique_id filename upload =
               (FileResponse tout (u ''redacted_'' @ filename), w2) \<and>
             files w2 tout = Some upload))"
proof -
  have a: "path_exists w inp \<and> copyfile w inp out = Inr w' \<longrightarrow>
      redact_sensitive_text lib w inp out [] = (True, w') \<and>
      files w inp \<noteq> None \<and> files w' out = files w inp \<and>
      (\<forall>p. p \<noteq> out \<longrightarrow> files w' p = files w p)"
    using copyfile_files [of w inp out w']
    by (simp add: redact_sensitive_text_def)
  have b: "falsy extracted_text \<longrightarrow> pii_targets L extracted_text = Inr []"
    by (simp add: pii_targets_def)
  have c: "write_file w0 tin upload = Inr w1 \<and>
    extract_text_from_pdf (lib_pdfplumber L) w1 tin = Inr t \<and> falsy t \<and>
    tout \<notin> dirs w0 \<and> tout \<notin> denied w0 \<longrightarrow>
      (\<exists>w2. anonymize_pdf_endpoint L w0 TEMP_DIR unique_id filename upload =
               (FileResponse tout (u ''redacted_'' @ filename), w2) \<and>
             files w2 tout = Some upload)"
    using endpoint_no_text [of tin TEMP_DIR unique_id tout w0 upload w1 L t filename]
    unfolding tin_def tout_def by blast
  from a b c show ?thesis by blast
qed

theorem redact_empty_targets_copy_witness:
  "path_exists sample_os sample_pdf \<and>
   copyfile sample_os sample_pdf sample_out = Inr copied_os \<and>
   redact_sensitive_text toy_fitz sample_os sample_pdf sample_out [] = (True, copied_os) \<and>
   files copied_os sample_out = Some sample_bytes \<and>
   falsy (Some []) \<and> pii_targets toy_libraries (Some []) = Inr [] \<and>
   write_file empty_os temp_in sample_bytes = Inr uploaded_os \<and>
   extract_text_from_pdf (lib_pdfplumber toy_libraries) uploaded_os temp_in = Inr (Some []) \<and>
   temp_out \<notin> dirs empty_os \<and> temp_out \<notin> denied empty_os \<and>
   fst (anonymize_pdf_endpoint toy_libraries empty_os (u ''temp'') (u ''id'') (u ''a.pdf'') sample_bytes)
     = FileResponse temp_out (u ''redacted_a.pdf'') \<and>
   files (snd (anonymize_pdf_endpoint toy_libraries empty_os (u ''temp'') (u ''id'') (u ''a.pdf'')
     sample_bytes)) temp_out = Some sample_bytes"
proof -
  have a: "path_exists sample_os sample_pdf"
    by (simp add: path_exists_def sample_os_def)
  have b: "copyfile sample_os sample_pdf sample_out = Inr copied_os"
    by (simp add: copyfile_def read_file_def write_file_def sample_os_def copied_os_def
        sample_paths)
  have c: "falsy (Some [])"
    by simp
  have d: "write_file empty_os temp_in sample_bytes = Inr uploaded_os"
    by (simp add: write_file_def empty_os_def uploaded_os_def)
  have e: "extract_text_from_pdf (lib_pdfplumber toy_libraries) uploaded_os temp_in = Inr (Some [])"
    by (simp add: extract_text_from_pdf_def pdfplumber_open_def read_file_def path_exists_def
        uploaded_os_def toy_libraries_def no_pages_def)
  have f: "temp_out \<notin> dirs empty_os \<and> temp_out \<notin> denied empty_os"
    by (simp add: empty_os_def)
  note T = redact_empty_targets_copy [where w = sample_os and inp = sample_pdf and out = sample_out
        and w' = copied_os and lib = toy_fitz and extracted_text = "Some []"
        and L = toy_libraries and ?w0.0 = empty_os and TEMP_DIR = "u ''temp''"
        and unique_id = "u ''id''" and upload = sample_bytes and ?w1.0 = uploaded_os
        and t = "Some []" and filename = "u ''a.pdf''", unfolded sample_paths]
  from T a b have g: "redact_sensitive_text toy_fitz sample_os sample_pdf sample_out [] = (True, copied_os)"
    by blast
  have h: "files copied_os sample_out = Some sample_bytes"
    by (simp add: copied_os_def)
  from T c have i: "pii_targets toy_libraries (Some []) = Inr []"
    by blast
  from T c d e f obtain w2 where
    "anonymize_pdf_endpoint toy_libraries empty_os (u ''temp'') (u ''id'') (u ''a.pdf'') sample_bytes
       = (FileResponse temp_out (u ''redacted_'' @ u ''a.pdf''), w2)"
    "files w2 temp_out = Some sample_bytes"
    by blast
  then have j: "fst (anonymize_pdf_endpoint toy_libraries empty_os (u ''temp'') (u ''id'') (u ''a.pdf'') sample_bytes)
     = FileResponse temp_out (u ''redacted_a.pdf'')"
    "files (snd (anonymize_pdf_endpoint toy_libraries empty_os (u ''temp'') (u ''id'') (u ''a.pdf'')
     sample_bytes)) temp_out = Some sample_bytes"
    by simp_all
  from a b c d e f g h i j show ?thesis by blast
qed

text \<open>
  Claim C1 as stated fails for an input path that does not exist: the redactor returns
  failure with the empty target list and no output file is written.
\<close>
theorem redact_empty_targets_counterexample:
  "redact_sensitive_text toy_fitz empty_os sample_pdf sample_out [] = (False, empty_os) \<and>
   files empty_os sample_out = None"
  by (simp add: redact_sensitive_text_def path_exists_def empty_os_def)

text \<open>
  Claim C2.  Every string that the pattern detector returns has the NRIC shape, one of
  S, T, F, G, then seven digits, then one upper-case letter, and the returned list has no
  duplicates.
\<close>
theorem find_nric_matches_shape:
  "(\<forall>m \<in> set (find_nric_matches nd text). nric_shape nd m) \<and>
   distinct (find_nric_matches nd text)"
proof -
  have "nric_shape nd m" if "m \<in> set (find_nric_matches nd text)" for m
  proof -
    from that have "m \<in> set (findall nd NRIC_REGEX_PATTERN (the text))"
      by (simp add: find_nric_matches_def list_of_set_def split: if_splits)
    then obtain t where "match_here nd NRIC_REGEX_PATTERN t = Some m"
      using findall_is_match by blast
    then show ?thesis
      by (intro nric_pattern_shape match_here_atoms)
  qed
  moreover have "distinct (find_nric_matches nd text)"
    by (simp add: find_nric_matches_def list_of_set_def)
  ultimately show ?thesis by blast
qed

theorem find_nric_matches_shape_witness:
  "u ''S1234567A'' \<in> set (find_nric_matches ascii_digit (Some (u ''ID: S1234567A or s1234567a'')))
   \<and> nric_shape ascii_digit (u ''S1234567A'')"
proof -
  have "u ''S1234567A'' \<in> set (find_nric_matches ascii_digit (Some (u ''ID: S1234567A or s1234567a'')))"
    by code_simp
  with find_nric_matches_shape [of ascii_digit "Some (u ''ID: S1234567A or s1234567a'')"]
  show ?thesis by blast
qed

text \<open>
  Claim C3, as the code has it.  The extractor returns \<open>None\<close> when the path does not
  exist, when opening the file raises, and when the extraction of any page raises, so
  never a partial string; for a document that opens with no pages it returns the empty
  string; and it never raises to its caller.
\<close>
theorem extract_text_failure:
  "(\<not> path_exists w p \<longrightarrow> extract_text_from_pdf pl w p = Inr None) \<and>
   (pdfplumber_open pl w p = Inl e \<longrightarrow> extract_text_from_pdf pl w p = Inr None) \<and>
   (pdfplumber_open pl w p = Inr pages \<and> (\<exists>pg \<in> set pages. isl pg) \<longrightarrow>
      extract_text_from_pdf pl w p = Inr None) \<and>
   (path_exists w p \<and> pdfplumber_open pl w p = Inr [] \<longrightarrow>
      extract_text_from_pdf pl w p = Inr (Some [])) \<and>
   (\<exists>r. extract_text_from_pdf pl w p = Inr r)"
proof (intro conjI impI)
  assume "pdfplumber_open pl w p = Inr pages \<and> (\<exists>pg \<in> set pages. isl pg)"
  then obtain e' where "pdfplumber_open pl w p = Inr pages" "extract_pages pages [] = Inl e'"
    using extract_pages_raise by blast
  then show "extract_text_from_pdf pl w p = Inr None"
    by (simp add: extract_text_from_pdf_def)
qed (auto simp: extract_text_from_pdf_def split: sum.splits)

theorem extract_text_failure_witness:
  "\<not> path_exists empty_os sample_pdf \<and>
   extract_text_from_pdf three_pages empty_os sample_pdf = Inr None \<and>
   pdfplumber_open broken_pdf sample_os sample_pdf = Inl PDFError \<and>
   extract_text_from_pdf broken_pdf sample_os sample_pdf = Inr None \<and>
   pdfplumber_open failing_page sample_os sample_pdf =
     Inr [Inr (Some (u ''John Smith'')), Inl PDFError] \<and>
   extract_text_from_pdf failing_page sample_os sample_pdf = Inr None \<and>
   path_exists sample_os sample_pdf \<and>
   pdfplumber_open no_pages sample_os sample_pdf = Inr [] \<and>
   extract_text_from_pdf no_pages sample_os sample_pdf = Inr (Some [])"
proof -
  have a: "\<not> path_exists empty_os sample_pdf"
    by (simp add: path_exists_def empty_os_def)
  have b: "pdfplumber_open broken_pdf sample_os sample_pdf = Inl PDFError"
    by (simp add: pdfplumber_open_def read_file_def sample_os_def broken_pdf_def)
  have c: "pdfplumber_open failing_page sample_os sample_pdf =
     Inr [Inr (Some (u ''John Smith'')), Inl PDFError]"
    by (simp add: pdfplumber_open_def read_file_def sample_os_def failing_page_def)
  have c': "\<exists>pg \<in> set [Inr (Some (u ''John Smith'')), Inl PDFError]. isl (pg :: page)"
    by simp
  have d: "path_exists sample_os sample_pdf"
    by (simp add: path_exists_def sample_os_def)
  have e: "pdfplumber_open no_pages sample_os sample_pdf = Inr []"
    by (simp add: pdfplumber_open_def read_file_def sample_os_def no_pages_def)
  show ?thesis
    using a b c c' d e
      extract_text_failure [of empty_os sample_pdf three_pages]
      extract_text_failure [of sample_os sample_pdf broken_pdf PDFError]
      extract_text_failure [of sample_os sample_pdf failing_page _
        "[Inr (Some (u ''John Smith'')), Inl PDFError]"]
      extract_text_failure [of sample_os sample_pdf no_pages]
    by blast
qed

text \<open>
  Claim C3 as stated fails for a document without pages: the extractor returns the empty
  string, not \<open>None\<close>.
\<close>
theorem extract_no_pages_counterexample:
  "path_exists sample_os sample_pdf \<and> pdfplumber_open no_pages sample_os sample_pdf = Inr [] \<and>
   extract_text_from_pdf no_pages sample_os sample_pdf = Inr (Some []) \<and>
   extract_text_from_pdf no_pages sample_os sample_pdf \<noteq> Inr None"
  by (simp add: extract_text_from_pdf_def pdfplumber_open_def read_file_def path_exists_def
      sample_os_def no_pages_def)

text \<open>
  Claim C4.  The aggregated list has exactly the elements of the union of the two detector
  results, without duplicates: a string found by both detectors occurs once, a string
  found by neither does not occur.
\<close>
theorem combine_is_union:
  "set (combine a b) = set a \<union> set b \<and> distinct (combine a b) \<and>
   (s \<in> set a \<and> s \<in> set b \<longrightarrow> count_list (combine a b) s = 1) \<and>
   (s \<notin> set a \<union> set b \<longrightarrow> count_list (combine a b) s = 0)"
  by (simp add: combine_def list_of_set_def count_list_remdups)

theorem combine_is_union_witness:
  "u ''S1234567A'' \<in> set [u ''John Smith'', u ''S1234567A''] \<and>
   u ''S1234567A'' \<in> set [u ''S1234567A''] \<and>
   count_list (combine [u ''John Smith'', u ''S1234567A''] [u ''S1234567A'']) (u ''S1234567A'') = 1 \<and>
   u ''Jane'' \<notin> set [u ''John Smith'', u ''S1234567A''] \<union> set [u ''S1234567A''] \<and>
   count_list (combine [u ''John Smith'', u ''S1234567A''] [u ''S1234567A'']) (u ''Jane'') = 0"
proof -
  have a: "u ''S1234567A'' \<in> set [u ''John Smith'', u ''S1234567A''] \<and>
    u ''S1234567A'' \<in> set [u ''S1234567A'']"
    by simp
  have b: "u ''Jane'' \<notin> set [u ''John Smith'', u ''S1234567A''] \<union> set [u ''S1234567A'']"
    by simp
  show ?thesis
    using a b
      combine_is_union [of "[u ''John Smith'', u ''S1234567A'']" "[u ''S1234567A'']" "u ''S1234567A''"]
      combine_is_union [of "[u ''John Smith'', u ''S1234567A'']" "[u ''S1234567A'']" "u ''Jane''"]
    by blast
qed




text \<open>
  Claim C6.  For a document that opens and whose pages are all extracted without an
  exception, the extracted text is the concatenation, in page order, of each page's text
  followed by a newline, where a page without text contributes nothing.
\<close>
theorem extract_text_concat:
  assumes "path_exists w p" and "pdfplumber_open pl w p = Inr pages"
    and "\<forall>pg \<in> set pages. \<not> isl pg"
  shows "extract_text_from_pdf pl w p = Inr (Some (concat (map page_contribution pages)))"
  using assms extract_pages_concat [of pages "[]"]
  by (simp add: extract_text_from_pdf_def)

theorem extract_text_concat_witness:
  "path_exists sample_os sample_pdf \<and>
   pdfplumber_open three_pages sample_os sample_pdf =
     Inr [Inr (Some (u ''John Smith'')), Inr None, Inr (Some (u ''ID: S1234567A.''))] \<and>
   extract_text_from_pdf three_pages sample_os sample_pdf =
     Inr (Some (u ''John Smith'' @ [10] @ u ''ID: S1234567A.'' @ [10]))"
proof -
  have a: "path_exists sample_os sample_pdf"
    by (simp add: path_exists_def sample_os_def)
  have b: "pdfplumber_open three_pages sample_os sample_pdf =
     Inr [Inr (Some (u ''John Smith'')), Inr None, Inr (Some (u ''ID: S1234567A.''))]"
    by (simp add: pdfplumber_open_def read_file_def sample_os_def three_pages_def)
  have c: "\<forall>pg \<in> set [Inr (Some (u ''John Smith'')), Inr None, Inr (Some (u ''ID: S1234567A.''))].
     \<not> isl (pg :: page)"
    by simp
  show ?thesis
    using a b extract_text_concat [OF a b c] by simp
qed

text \<open>
  Claim C7.  The entity detector returns the empty list for an absent or empty text; for
  any other text on which the model returns its entities, it returns without duplicates
  exactly the texts of the entities whose label is one of PERSON, GPE, LOC, ORG, DATE.
\<close>
theorem find_pii_entities_allow_list:
  "(falsy text \<longrightarrow> find_pii_entities nlp text = Inr []) \<and>
   (\<not> falsy text \<and> nlp (the text) = Inr ents \<longrightarrow>
      (\<exists>ys. find_pii_entities nlp text = Inr ys \<and> distinct ys \<and>
         set ys = set (map ent_text (filter (\<lambda>e. ent_label e \<in> set PII_ENTITY_TYPES) ents)))) \<and>
   set PII_ENTITY_TYPES = {u ''PERSON'', u ''GPE'', u ''LOC'', u ''ORG'', u ''DATE''}"
  by (simp add: find_pii_entities_def list_of_set_def collect_pii_set PII_ENTITY_TYPES_def)

theorem find_pii_entities_allow_list_witness:
  "falsy None \<and> find_pii_entities sample_nlp None = Inr [] \<and>
   \<not> falsy (Some (u ''John Smith lives in Singapore.'')) \<and>
   sample_nlp (the (Some (u ''John Smith lives in Singapore.''))) = Inr sample_entities \<and>
   (\<exists>ys. find_pii_entities sample_nlp (Some (u ''John Smith lives in Singapore.'')) = Inr ys \<and>
      distinct ys \<and> set ys = {u ''John Smith'', u ''Singapore''})"
proof -
  let ?t = "Some (u ''John Smith lives in Singapore.'')"
  have a: "falsy None" by simp
  have b: "\<not> falsy ?t" by simp
  have c: "sample_nlp (the ?t) = Inr sample_entities"
    by (simp add: sample_nlp_def)
  have e: "set (map ent_text (filter (\<lambda>e. ent_label e \<in> set PII_ENTITY_TYPES) sample_entities))
      = {u ''John Smith'', u ''Singapore''}"
    by (simp add: PII_ENTITY_TYPES_def sample_entities_def)
  show ?thesis
    using a b c e
      find_pii_entities_allow_list [of None sample_nlp]
      find_pii_entities_allow_list [of ?t sample_nlp sample_entities]
    by metis
qed

text \<open>
  Claim C8.  If the input path does not exist, the redactor returns failure for every
  output path and target list, and leaves the file system as it was.
\<close>
theorem redact_missing_input:
  "\<not> path_exists w inp \<Longrightarrow>
     redact_sensitive_text lib w inp out targets = (False, w)"
  by (simp add: redact_sensitive_text_def)

theorem redact_missing_input_witness:
  "\<not> path_exists empty_os sample_pdf \<and>
   redact_sensitive_text toy_fitz empty_os sample_pdf sample_out [u ''John Smith''] = (False, empty_os) \<and>
   files empty_os sample_out = None"
proof -
  have a: "\<not> path_exists empty_os sample_pdf"
    by (simp add: path_exists_def empty_os_def)
  show ?thesis
    using a redact_missing_input [OF a, of toy_fitz sample_out "[u ''John Smith'']"]
    by (simp add: empty_os_def)
qed



text \<open>
  Claim C10.  With the empty target list and an input path that does not exist, the
  redactor returns failure and changes nothing; success with the empty target list
  implies that the input path exists.
\<close>
theorem redact_check_before_copy:
  "(\<not> path_exists w inp \<longrightarrow>
      redact_sensitive_text lib w inp out [] = (False, w)) \<and>
   (fst (redact_sensitive_text lib w inp out []) \<longrightarrow> path_exists w inp)"
  by (simp add: redact_sensitive_text_def)

theorem redact_check_before_copy_witness:
  "\<not> path_exists empty_os sample_pdf \<and>
   redact_sensitive_text toy_fitz empty_os sample_pdf sample_out [] = (False, empty_os) \<and>
   fst (redact_sensitive_text toy_fitz sample_os sample_pdf sample_out []) \<and>
   path_exists sample_os sample_pdf"
proof -
  have a: "\<not> path_exists empty_os sample_pdf"
    by (simp add: path_exists_def empty_os_def)
  have b: "fst (redact_sensitive_text toy_fitz sample_os sample_pdf sample_out [])"
    by (simp add: redact_sensitive_text_def path_exists_def copyfile_def read_file_def
        write_file_def sample_os_def sample_paths)
  from a b redact_check_before_copy [of empty_os sample_pdf toy_fitz sample_out]
    redact_check_before_copy [of sample_os sample_pdf toy_fitz sample_out]
  show ?thesis by blast
qed

end
